theory Spec2Isabelle
  imports Complex_Main
begin

section \<open>Data model\<close>

text \<open>
  The repository's only source file is \<^verbatim>\<open>src/open_flamingo/flamingo.py\<close>: the class
  \<^verbatim>\<open>Flamingo\<close> with its methods \<^verbatim>\<open>forward\<close> and \<^verbatim>\<open>generate\<close>. Both orchestrate
  collaborators whose code is elsewhere: the vision encoder, the language model
  (\<^verbatim>\<open>OPTForCausalLMFlamingo\<close>), its Perceiver resampler and its decoder layers.

  Every \<^verbatim>\<open>torch.Tensor\<close> (images, token batches, masks, labels, features, generated
  sequences) is a value of one opaque type \<open>'t\<close>; the orchestrator never computes with a
  tensor, it only hands tensors on. The language model's output object has type \<open>'o\<close>,
  an exception raised by a collaborator has type \<open>'e\<close>, and the contents of a decoder
  layer other than its conditioning (its weights) have type \<open>'w\<close>.
\<close>

text \<open>
  The per-layer conditioning flag of the spec's data model: each decoder layer holds
  either "unconditioned" or "conditioned on tensor T".
\<close>

datatype 't conditioning = Unconditioned | Conditioned 't

record ('w, 't) decoder_layer =
  body :: 'w
  conditioning :: "'t conditioning"

text \<open>The object returned by the vision encoder; only its \<^verbatim>\<open>last_hidden_state\<close> is read.\<close>

record 't encoder_output =
  last_hidden_state :: 't

text \<open>
  The keyword arguments of \<^verbatim>\<open>self.lang_encoder.generate(lang_x, ...)\<close> (lines 66-80),
  under the keyword names of the call. The Python floats are never computed with here.
\<close>

record 't generate_kwargs =
  attention_mask :: "'t option"
  max_length :: int
  eos_token_id :: int
  num_beams :: int
  temperature :: real
  top_k :: int
  top_p :: real
  no_repeat_ngram_size :: int
  length_penalty :: real
  num_return_sequences :: int
  do_sample :: bool
  early_stopping :: bool

text \<open>
  The collaborators, as parameters. A call either raises (\<open>Inl\<close>) or returns (\<open>Inr\<close>).
  \<^item> \<open>vision_encoder\<close> is \<^verbatim>\<open>self.vision_encoder(vision_x)\<close>.
  \<^item> \<open>lang_encoder\<close> is \<^verbatim>\<open>self.lang_encoder(features, lang_x, attention_mask=, labels=)\<close>.
    It is given the decoder layers and returns them as it leaves them, also when it
    raises: the spec says that this call distributes the features to the layers itself.
  \<^item> \<open>perceiver_resampler\<close> is \<^verbatim>\<open>self.lang_encoder.perceiver_resampler(features)\<close>.
  \<^item> \<open>lang_encoder_generate\<close> is \<^verbatim>\<open>self.lang_encoder.generate(lang_x, **kwargs)\<close>, the
    generation routine of the model library. It is a function of the decoder layers and
    of its arguments: it reads the layers, whose conditioning \<^verbatim>\<open>generate\<close> has set before
    the call, and leaves them as they are (spec 3: the conditioning is "read during every
    layer invocation within that call").
  The collaborators are deterministic: random sampling and floating-point arithmetic
  inside them are not modelled.
\<close>

record ('w, 't, 'o, 'e) collaborators =
  vision_encoder :: "'t \<Rightarrow> 'e + 't encoder_output"
  lang_encoder :: "('w, 't) decoder_layer list \<Rightarrow> 't \<Rightarrow> 't \<Rightarrow> 't option \<Rightarrow> 't option
                     \<Rightarrow> ('e + 'o) \<times> ('w, 't) decoder_layer list"
  perceiver_resampler :: "'t \<Rightarrow> 'e + 't"
  lang_encoder_generate :: "('w, 't) decoder_layer list \<Rightarrow> 't \<Rightarrow> 't generate_kwargs \<Rightarrow> 'e + 't"

text \<open>
  The calls a method makes on its collaborators, in the order it makes them. A call is
  recorded when it is made, whether it returns or raises.
\<close>

datatype 't call =
    VisionEncoder 't
  | LangEncoder 't 't "'t option" "'t option"
  | PerceiverResampler 't
  | Condition nat 't
  | LangEncoderGenerate 't "'t generate_kwargs"
  | ClearConditionedLayers

text \<open>
  The mutable state of a \<^verbatim>\<open>Flamingo\<close> instance:
  \<^verbatim>\<open>self.lang_encoder.model.decoder.layers\<close>, and the record of the calls made so far.
\<close>

record ('w, 't) world =
  layers :: "('w, 't) decoder_layer list"
  calls :: "'t call list"

type_synonym ('w, 't, 'e, 'a) action = "('w, 't) world \<Rightarrow> ('e + 'a) \<times> ('w, 't) world"

section \<open>Sequencing with exceptions\<close>

definition returns :: "'a \<Rightarrow> ('w, 't, 'e, 'a) action" where
  "returns a = (\<lambda>w. (Inr a, w))"

text \<open>
  One statement after another: when the first raises, the rest is not run and the state
  stays as the first left it.
\<close>

definition and_then ::
  "('w, 't, 'e, 'a) action \<Rightarrow> ('a \<Rightarrow> ('w, 't, 'e, 'b) action) \<Rightarrow> ('w, 't, 'e, 'b) action" where
  "and_then m f = (\<lambda>w. case m w of (Inl e, w') \<Rightarrow> (Inl e, w') | (Inr a, w') \<Rightarrow> f a w')"

section \<open>The decoder layers' conditioning\<close>

text \<open>
  Modelled from the spec: the layer method \<^verbatim>\<open>condition\<close> is defined in
  \<^verbatim>\<open>flamingo_lm.py\<close> / \<^verbatim>\<open>helpers.py\<close>, which are not among the sources. Spec 4.3:
  "\<^verbatim>\<open>condition(features)\<close> stores the tensor for use by that layer's cross-attention
  sublayer on every subsequent invocation until \<^verbatim>\<open>clear()\<close> is called."
\<close>

definition condition :: "'t \<Rightarrow> ('w, 't) decoder_layer \<Rightarrow> ('w, 't) decoder_layer" where
  "condition features layer = layer\<lparr>conditioning := Conditioned features\<rparr>"

text \<open>
  Modelled from the spec: \<^verbatim>\<open>OPTForCausalLMFlamingo.clear_conditioned_layers\<close> is defined
  in \<^verbatim>\<open>flamingo_lm.py\<close>, which is not among the sources. Spec 2, cleanup step: "remove
  the stored visual features from all decoder layers".
\<close>

definition clear_conditioned_layers ::
  "('w, 't) decoder_layer list \<Rightarrow> ('w, 't) decoder_layer list" where
  "clear_conditioned_layers ls = map (\<lambda>layer. layer\<lparr>conditioning := Unconditioned\<rparr>) ls"

text \<open>
  Modelled from the spec: \<^verbatim>\<open>OPTForCausalLMFlamingo.init_flamingo\<close>, called by
  \<^verbatim>\<open>Flamingo.__init__\<close> (line 26), is defined in \<^verbatim>\<open>flamingo_lm.py\<close>, which is not among
  the sources. A pristine model is one with "no images-influenced state" (spec 8): its
  layers, given by their bodies, are all unconditioned.
\<close>

definition init_flamingo :: "'w list \<Rightarrow> ('w, 't) decoder_layer list" where
  "init_flamingo bodies = map (\<lambda>b. \<lparr>body = b, conditioning = Unconditioned\<rparr>) bodies"

section \<open>The calls on the collaborators\<close>

definition call_vision_encoder ::
  "('w, 't, 'o, 'e) collaborators \<Rightarrow> 't \<Rightarrow> ('w, 't, 'e, 't encoder_output) action" where
  "call_vision_encoder env vision_x =
     (\<lambda>w. (vision_encoder env vision_x, w\<lparr>calls := calls w @ [VisionEncoder vision_x]\<rparr>))"

definition call_lang_encoder ::
  "('w, 't, 'o, 'e) collaborators \<Rightarrow> 't \<Rightarrow> 't \<Rightarrow> 't option \<Rightarrow> 't option
     \<Rightarrow> ('w, 't, 'e, 'o) action" where
  "call_lang_encoder env features lang_x attention_mask' labels =
     (\<lambda>w. case lang_encoder env (layers w) features lang_x attention_mask' labels of
             (r, ls) \<Rightarrow> (r, w\<lparr>layers := ls,
                               calls := calls w @ [LangEncoder features lang_x attention_mask' labels]\<rparr>))"

definition call_perceiver_resampler ::
  "('w, 't, 'o, 'e) collaborators \<Rightarrow> 't \<Rightarrow> ('w, 't, 'e, 't) action" where
  "call_perceiver_resampler env features =
     (\<lambda>w. (perceiver_resampler env features, w\<lparr>calls := calls w @ [PerceiverResampler features]\<rparr>))"

text \<open>\<^verbatim>\<open>layer.condition(features)\<close> on the layer at index \<open>i\<close> of the decoder's layer list.\<close>

definition call_condition :: "nat \<Rightarrow> 't \<Rightarrow> ('w, 't, 'e, unit) action" where
  "call_condition i features =
     (\<lambda>w. (Inr (), w\<lparr>layers := (layers w)[i := condition features (layers w ! i)],
                       calls := calls w @ [Condition i features]\<rparr>))"

definition call_generate ::
  "('w, 't, 'o, 'e) collaborators \<Rightarrow> 't \<Rightarrow> 't generate_kwargs \<Rightarrow> ('w, 't, 'e, 't) action" where
  "call_generate env lang_x kwargs =
     (\<lambda>w. (lang_encoder_generate env (layers w) lang_x kwargs,
            w\<lparr>calls := calls w @ [LangEncoderGenerate lang_x kwargs]\<rparr>))"

definition call_clear_conditioned_layers :: "('w, 't, 'e, unit) action" where
  "call_clear_conditioned_layers =
     (\<lambda>w. (Inr (), w\<lparr>layers := clear_conditioned_layers (layers w),
                       calls := calls w @ [ClearConditionedLayers]\<rparr>))"

text \<open>
  The loop \<^verbatim>\<open>for layer in self.lang_encoder.model.decoder.layers: ...\<close> (lines 63-64),
  over the positions of the layer list.
\<close>

fun for_each_layer :: "nat list \<Rightarrow> (nat \<Rightarrow> ('w, 't, 'e, unit) action) \<Rightarrow> ('w, 't, 'e, unit) action" where
  "for_each_layer [] f = returns ()"
| "for_each_layer (i # rest) f = and_then (f i) (\<lambda>_. for_each_layer rest f)"

section \<open>The class Flamingo\<close>

text \<open>
  \<^verbatim>\<open>Flamingo.__init__\<close> (lines 17-26): keeps its two arguments and calls
  \<^verbatim>\<open>self.lang_encoder.init_flamingo()\<close>.
\<close>

definition Flamingo_init :: "'w list \<Rightarrow> ('w, 't) world" where
  "Flamingo_init bodies = \<lparr>layers = init_flamingo bodies, calls = []\<rparr>"

text \<open>
  \<^verbatim>\<open>Flamingo.forward\<close> (lines 28-33):
  \<^verbatim>\<open>
    vision_attended = self.vision_encoder(vision_x)
    output = self.lang_encoder(vision_attended.last_hidden_state, lang_x,
                               attention_mask=attention_mask, labels=labels)
    self.lang_encoder.clear_conditioned_layers()
    return output
  \<close>
\<close>

definition forward ::
  "('w, 't, 'o, 'e) collaborators \<Rightarrow> 't \<Rightarrow> 't \<Rightarrow> 't option \<Rightarrow> 't option
     \<Rightarrow> ('w, 't, 'e, 'o) action" where
  "forward env vision_x lang_x attention_mask' labels =
     and_then (call_vision_encoder env vision_x) (\<lambda>vision_attended.
     and_then (call_lang_encoder env (last_hidden_state vision_attended) lang_x attention_mask' labels)
       (\<lambda>output.
     and_then call_clear_conditioned_layers (\<lambda>_.
     returns output)))"

text \<open>
  \<^verbatim>\<open>Flamingo.generate\<close> (lines 35-83):
  \<^verbatim>\<open>
    vision_attended = self.vision_encoder(vision_x).last_hidden_state
    vision_attended = self.lang_encoder.perceiver_resampler(vision_attended)
    for layer in self.lang_encoder.model.decoder.layers:
        layer.condition(vision_attended)
    output = self.lang_encoder.generate(lang_x, attention_mask=attention_mask,
        max_length=max_length, eos_token_id=eoc_token_id, num_beams=num_beams,
        temperature=temperature, top_k=top_k, top_p=top_p,
        no_repeat_ngram_size=no_repeat_ngram_size, length_penalty=length_penalty,
        num_return_sequences=num_return_sequences, do_sample=do_sample,
        early_stopping=early_stopping)
    self.lang_encoder.clear_conditioned_layers()
    return output
  \<close>
  The arguments are in the order of the signature; each is named after its parameter,
  with a prime where the name is also a keyword of the call.
\<close>

definition generate ::
  "('w, 't, 'o, 'e) collaborators \<Rightarrow> 't \<Rightarrow> 't \<Rightarrow> int \<Rightarrow> int \<Rightarrow> 't option \<Rightarrow> int \<Rightarrow> real \<Rightarrow> int
     \<Rightarrow> real \<Rightarrow> int \<Rightarrow> real \<Rightarrow> int \<Rightarrow> bool \<Rightarrow> bool \<Rightarrow> ('w, 't, 'e, 't) action" where
  "generate env vision_x lang_x max_length' eoc_token_id attention_mask' num_beams'
       temperature' top_k' top_p' no_repeat_ngram_size' length_penalty'
       num_return_sequences' do_sample' early_stopping' =
     and_then (call_vision_encoder env vision_x) (\<lambda>encoded.
     and_then (call_perceiver_resampler env (last_hidden_state encoded)) (\<lambda>vision_attended.
     and_then (\<lambda>w. for_each_layer [0..<length (layers w)]
                      (\<lambda>i. call_condition i vision_attended) w) (\<lambda>_.
     and_then (call_generate env lang_x
                 \<lparr>attention_mask = attention_mask',
                  max_length = max_length',
                  eos_token_id = eoc_token_id,
                  num_beams = num_beams',
                  temperature = temperature',
                  top_k = top_k',
                  top_p = top_p',
                  no_repeat_ngram_size = no_repeat_ngram_size',
                  length_penalty = length_penalty',
                  num_return_sequences = num_return_sequences',
                  do_sample = do_sample',
                  early_stopping = early_stopping'\<rparr>) (\<lambda>output.
     and_then call_clear_conditioned_layers (\<lambda>_.
     returns output)))))"

section \<open>Reading the record of calls\<close>

text \<open>The calls made between two states of the same instance.\<close>

definition new_calls :: "('w, 't) world \<Rightarrow> ('w, 't) world \<Rightarrow> 't call list" where
  "new_calls w w' = drop (length (calls w)) (calls w')"

text \<open>
  What the record says was handed to each collaborator: the inputs of the resampler, the
  features given to the language model's forward call, the layer positions and features
  of the \<^verbatim>\<open>condition\<close> calls, and the arguments of the generation routine.
\<close>

definition resampler_inputs :: "'t call list \<Rightarrow> 't list" where
  "resampler_inputs cs =
     concat (map (\<lambda>c. case c of PerceiverResampler f \<Rightarrow> [f] | _ \<Rightarrow> []) cs)"

definition lang_encoder_inputs :: "'t call list \<Rightarrow> 't list" where
  "lang_encoder_inputs cs =
     concat (map (\<lambda>c. case c of LangEncoder f _ _ _ \<Rightarrow> [f] | _ \<Rightarrow> []) cs)"

definition condition_calls :: "'t call list \<Rightarrow> (nat \<times> 't) list" where
  "condition_calls cs =
     concat (map (\<lambda>c. case c of Condition i f \<Rightarrow> [(i, f)] | _ \<Rightarrow> []) cs)"

definition generate_calls :: "'t call list \<Rightarrow> ('t \<times> 't generate_kwargs) list" where
  "generate_calls cs =
     concat (map (\<lambda>c. case c of LangEncoderGenerate x kw \<Rightarrow> [(x, kw)] | _ \<Rightarrow> []) cs)"

text \<open>
  The keyword arguments that \<^verbatim>\<open>generate\<close> builds from its own arguments, as in the
  definition of \<open>generate\<close>.
\<close>

abbreviation passed_kwargs ::
  "int \<Rightarrow> int \<Rightarrow> 't option \<Rightarrow> int \<Rightarrow> real \<Rightarrow> int \<Rightarrow> real \<Rightarrow> int \<Rightarrow> real \<Rightarrow> int \<Rightarrow> bool \<Rightarrow> bool
     \<Rightarrow> 't generate_kwargs" where
  "passed_kwargs ml eoc am nb t k p nr lp ns ds es \<equiv>
     \<lparr>attention_mask = am, max_length = ml, eos_token_id = eoc, num_beams = nb,
      temperature = t, top_k = k, top_p = p, no_repeat_ngram_size = nr, length_penalty = lp,
      num_return_sequences = ns, do_sample = ds, early_stopping = es\<rparr>"

section \<open>Properties of a generated sequence\<close>




section \<open>Stand-in collaborators for concrete runs\<close>

text \<open>
  The features a list of layers holds, in layer order; an unconditioned layer holds none.
\<close>

definition stored_features :: "('w, int list) decoder_layer list \<Rightarrow> int list" where
  "stored_features ls =
     concat (map (\<lambda>l. case conditioning l of Unconditioned \<Rightarrow> [] | Conditioned f \<Rightarrow> f) ls)"

text \<open>
  Small collaborators over lists of integers, to run the two methods on concrete inputs.
  \<^item> The vision encoder raises on an empty image batch and doubles every pixel otherwise.
  \<^item> The language model raises on more than two features before it touches the layers.
    Otherwise it stores the features it is given in every layer, then raises on an empty
    token batch; its output shows the features it found in the layers on entry.
  \<^item> The resampler keeps the first feature.
  \<^item> The generation routine raises on \<^verbatim>\<open>num_beams < 1\<close>. Otherwise it returns the prompt
    followed by generated tokens: the features stored in the layers, then the
    end-of-sequence token. Like the library's loop it appends one token before it looks
    at the length, and then stops as soon as the length has reached \<^verbatim>\<open>max_length\<close>.
\<close>

definition demo :: "(nat, int list, int list, string) collaborators" where
  "demo =
     \<lparr>vision_encoder = (\<lambda>vision_x.
        if vision_x = [] then Inl ''no image''
        else Inr \<lparr>last_hidden_state = map (\<lambda>px. 2 * px) vision_x\<rparr>),
      lang_encoder = (\<lambda>ls features lang_x am labels.
        if 2 < length features then (Inl ''feature size mismatch'', ls)
        else (if lang_x = [] then Inl ''no tokens''
              else Inr (stored_features ls @ features @ lang_x),
              map (condition features) ls)),
      perceiver_resampler = (\<lambda>features. Inr (take 1 features)),
      lang_encoder_generate = (\<lambda>ls lang_x kwargs.
        if num_beams kwargs < 1 then Inl ''num_beams must be positive''
        else Inr (lang_x @
                  take (max 1 (nat (max_length kwargs - int (length lang_x))))
                    (stored_features ls @ [eos_token_id kwargs])))\<rparr>"

section \<open>Running the two methods\<close>

text \<open>The loop of \<^verbatim>\<open>generate\<close> never raises; it updates the layers position by position.\<close>

lemma for_each_condition:
  "for_each_layer idxs (\<lambda>i. call_condition i r) w =
     (Inr (), w\<lparr>layers := fold (\<lambda>i ls. ls[i := condition r (ls ! i)]) idxs (layers w),
                 calls := calls w @ map (\<lambda>i. Condition i r) idxs\<rparr>)"
  by (induction idxs arbitrary: w) (simp_all add: returns_def and_then_def call_condition_def)

lemma fold_condition_upt:
  "n \<le> length ls \<Longrightarrow>
   fold (\<lambda>i ls. ls[i := condition r (ls ! i)]) [0..<n] ls
     = map (condition r) (take n ls) @ drop n ls"
proof (induction n)
  case 0
  then show ?case by simp
next
  case (Suc n)
  then have n: "n < length ls" by simp
  have "fold (\<lambda>i ls. ls[i := condition r (ls ! i)]) [0..<Suc n] ls
          = (map (condition r) (take n ls) @ drop n ls)
              [n := condition r ((map (condition r) (take n ls) @ drop n ls) ! n)]"
    using Suc by simp
  also have "\<dots> = map (condition r) (take n ls) @ (drop n ls)[0 := condition r (ls ! n)]"
    using n by (simp add: list_update_append nth_append)
  also have "drop n ls = ls ! n # drop (Suc n) ls"
    using n by (simp add: Cons_nth_drop_Suc)
  finally show ?case
    using n by (simp add: take_Suc_conv_app_nth)
qed

lemma condition_every_layer:
  "fold (\<lambda>i ls. ls[i := condition r (ls ! i)]) [0..<length ls] ls = map (condition r) ls"
  using fold_condition_upt [of "length ls" ls r] by simp

text \<open>Both methods, statement by statement, on every path.\<close>

lemma forward_run:
  "forward env vx lx am lb w =
     (case vision_encoder env vx of
        Inl e \<Rightarrow> (Inl e, w\<lparr>calls := calls w @ [VisionEncoder vx]\<rparr>)
      | Inr enc \<Rightarrow>
          (case lang_encoder env (layers w) (last_hidden_state enc) lx am lb of
             (Inl e, ls) \<Rightarrow>
               (Inl e, w\<lparr>layers := ls,
                          calls := calls w @ [VisionEncoder vx,
                                              LangEncoder (last_hidden_state enc) lx am lb]\<rparr>)
           | (Inr out, ls) \<Rightarrow>
               (Inr out, w\<lparr>layers := clear_conditioned_layers ls,
                            calls := calls w @ [VisionEncoder vx,
                                                LangEncoder (last_hidden_state enc) lx am lb,
                                                ClearConditionedLayers]\<rparr>)))"
  by (simp add: forward_def and_then_def returns_def call_vision_encoder_def
        call_lang_encoder_def call_clear_conditioned_layers_def
      split: sum.splits prod.splits)

lemma generate_run:
  "generate env vx lx ml eoc am nb t k p nr lp ns ds es w =
     (case vision_encoder env vx of
        Inl e \<Rightarrow> (Inl e, w\<lparr>calls := calls w @ [VisionEncoder vx]\<rparr>)
      | Inr enc \<Rightarrow>
          (case perceiver_resampler env (last_hidden_state enc) of
             Inl e \<Rightarrow>
               (Inl e, w\<lparr>calls := calls w @ [VisionEncoder vx,
                                              PerceiverResampler (last_hidden_state enc)]\<rparr>)
           | Inr r \<Rightarrow>
               (case lang_encoder_generate env (map (condition r) (layers w)) lx
                       \<lparr>attention_mask = am, max_length = ml, eos_token_id = eoc,
                        num_beams = nb, temperature = t, top_k = k, top_p = p,
                        no_repeat_ngram_size = nr, length_penalty = lp,
                        num_return_sequences = ns, do_sample = ds, early_stopping = es\<rparr> of
                  Inl e \<Rightarrow>
                    (Inl e, w\<lparr>layers := map (condition r) (layers w),
                               calls := calls w @
                                 [VisionEncoder vx, PerceiverResampler (last_hidden_state enc)] @
                                 map (\<lambda>i. Condition i r) [0..<length (layers w)] @
                                 [LangEncoderGenerate lx
                                    \<lparr>attention_mask = am, max_length = ml, eos_token_id = eoc,
                                     num_beams = nb, temperature = t, top_k = k, top_p = p,
                                     no_repeat_ngram_size = nr, length_penalty = lp,
                                     num_return_sequences = ns, do_sample = ds,
                                     early_stopping = es\<rparr>]\<rparr>)
                | Inr out \<Rightarrow>
                    (Inr out, w\<lparr>layers := clear_conditioned_layers (map (condition r) (layers w)),
                                 calls := calls w @
                                 [VisionEncoder vx, PerceiverResampler (last_hidden_state enc)] @
                                 map (\<lambda>i. Condition i r) [0..<length (layers w)] @
                                 [LangEncoderGenerate lx
                                    \<lparr>attention_mask = am, max_length = ml, eos_token_id = eoc,
                                     num_beams = nb, temperature = t, top_k = k, top_p = p,
                                     no_repeat_ngram_size = nr, length_penalty = lp,
                                     num_return_sequences = ns, do_sample = ds,
                                     early_stopping = es\<rparr>,
                                  ClearConditionedLayers]\<rparr>))))"
  by (simp add: generate_def and_then_def returns_def call_vision_encoder_def
        call_perceiver_resampler_def call_generate_def call_clear_conditioned_layers_def
        for_each_condition condition_every_layer
      split: sum.splits prod.splits)

text \<open>The path on which every collaborator returns, and that it is the only returning one.\<close>

lemma forward_success:
  assumes "vision_encoder env vx = Inr enc"
    and "lang_encoder env (layers w) (last_hidden_state enc) lx am lb = (Inr out, ls)"
  shows "forward env vx lx am lb w =
           (Inr out, w\<lparr>layers := clear_conditioned_layers ls,
                        calls := calls w @ [VisionEncoder vx,
                                            LangEncoder (last_hidden_state enc) lx am lb,
                                            ClearConditionedLayers]\<rparr>)"
  using assms by (simp add: forward_run)

lemma forward_returned:
  assumes "fst (forward env vx lx am lb w) = Inr out"
  shows "\<exists>enc ls. vision_encoder env vx = Inr enc \<and>
           lang_encoder env (layers w) (last_hidden_state enc) lx am lb = (Inr out, ls)"
  using assms by (auto simp: forward_run split: sum.splits prod.splits)

lemma generate_success:
  assumes "vision_encoder env vx = Inr enc"
    and "perceiver_resampler env (last_hidden_state enc) = Inr r"
    and "lang_encoder_generate env (map (condition r) (layers w)) lx
           \<lparr>attention_mask = am, max_length = ml, eos_token_id = eoc,
            num_beams = nb, temperature = t, top_k = k, top_p = p,
            no_repeat_ngram_size = nr, length_penalty = lp,
            num_return_sequences = ns, do_sample = ds, early_stopping = es\<rparr> = Inr sq"
  shows "generate env vx lx ml eoc am nb t k p nr lp ns ds es w =
           (Inr sq, w\<lparr>layers := clear_conditioned_layers (map (condition r) (layers w)),
                       calls := calls w @
                         [VisionEncoder vx, PerceiverResampler (last_hidden_state enc)] @
                         map (\<lambda>i. Condition i r) [0..<length (layers w)] @
                         [LangEncoderGenerate lx
                            \<lparr>attention_mask = am, max_length = ml, eos_token_id = eoc,
                             num_beams = nb, temperature = t, top_k = k, top_p = p,
                             no_repeat_ngram_size = nr, length_penalty = lp,
                             num_return_sequences = ns, do_sample = ds,
                             early_stopping = es\<rparr>,
                          ClearConditionedLayers]\<rparr>)"
  using assms by (simp add: generate_run)

lemma generate_returned:
  assumes "fst (generate env vx lx ml eoc am nb t k p nr lp ns ds es w) = Inr sq"
  shows "\<exists>enc r. vision_encoder env vx = Inr enc \<and>
           perceiver_resampler env (last_hidden_state enc) = Inr r \<and>
           lang_encoder_generate env (map (condition r) (layers w)) lx
             \<lparr>attention_mask = am, max_length = ml, eos_token_id = eoc,
              num_beams = nb, temperature = t, top_k = k, top_p = p,
              no_repeat_ngram_size = nr, length_penalty = lp,
              num_return_sequences = ns, do_sample = ds, early_stopping = es\<rparr> = Inr sq"
  using assms by (auto simp: generate_run split: sum.splits)

lemma cleared_layers_unconditioned:
  "list_all (\<lambda>l. conditioning l = Unconditioned) (clear_conditioned_layers ls)"
  by (simp add: clear_conditioned_layers_def list_all_iff)

text \<open>Concrete runs on the stand-in collaborators are computed from these facts.\<close>

lemmas run_demo =
  forward_run generate_run demo_def Flamingo_init_def init_flamingo_def stored_features_def
  condition_def clear_conditioned_layers_def


lemma forward_layers_only:
  assumes "layers w1 = layers w2"
  shows "fst (forward env vx lx am lb w1) = fst (forward env vx lx am lb w2) \<and>
         layers (snd (forward env vx lx am lb w1)) = layers (snd (forward env vx lx am lb w2))"
  using assms by (simp add: forward_run split: sum.splits prod.splits)

text \<open>After \<^verbatim>\<open>condition\<close> on every layer, and after clearing them again.\<close>

lemma conditioned_layers_hold:
  "list_all (\<lambda>l. conditioning l = Conditioned r) (map (condition r) ls)"
  by (simp add: condition_def list_all_iff)

lemma cleared_is_pristine:
  "clear_conditioned_layers (map (condition r) ls) = init_flamingo (map body ls)"
  by (simp add: clear_conditioned_layers_def init_flamingo_def condition_def)




text \<open>Reading the record of calls.\<close>

lemma new_calls_append [simp]:
  "new_calls w (w'\<lparr>calls := calls w @ cs\<rparr>) = cs"
  by (simp add: new_calls_def)

lemma projections_of_conditions [simp]:
  "resampler_inputs (map (\<lambda>i. Condition i r) idxs) = []"
  "lang_encoder_inputs (map (\<lambda>i. Condition i r) idxs) = []"
  "generate_calls (map (\<lambda>i. Condition i r) idxs) = []"
  "condition_calls (map (\<lambda>i. Condition i r) idxs) = map (\<lambda>i. (i, r)) idxs"
  by (induction idxs)
     (simp_all add: resampler_inputs_def lang_encoder_inputs_def generate_calls_def
        condition_calls_def)

lemma projections_append [simp]:
  "resampler_inputs (cs @ ds) = resampler_inputs cs @ resampler_inputs ds"
  "lang_encoder_inputs (cs @ ds) = lang_encoder_inputs cs @ lang_encoder_inputs ds"
  "generate_calls (cs @ ds) = generate_calls cs @ generate_calls ds"
  "condition_calls (cs @ ds) = condition_calls cs @ condition_calls ds"
  by (simp_all add: resampler_inputs_def lang_encoder_inputs_def generate_calls_def
        condition_calls_def)

lemma projections_Cons [simp]:
  "resampler_inputs (c # cs) = (case c of PerceiverResampler f \<Rightarrow> [f] | _ \<Rightarrow> []) @ resampler_inputs cs"
  "lang_encoder_inputs (c # cs) = (case c of LangEncoder f _ _ _ \<Rightarrow> [f] | _ \<Rightarrow> []) @ lang_encoder_inputs cs"
  "generate_calls (c # cs) = (case c of LangEncoderGenerate x kw \<Rightarrow> [(x, kw)] | _ \<Rightarrow> []) @ generate_calls cs"
  "condition_calls (c # cs) = (case c of Condition i f \<Rightarrow> [(i, f)] | _ \<Rightarrow> []) @ condition_calls cs"
  "resampler_inputs [] = []" "lang_encoder_inputs [] = []" "generate_calls [] = []"
  "condition_calls [] = []"
  by (simp_all add: resampler_inputs_def lang_encoder_inputs_def generate_calls_def
        condition_calls_def)


section \<open>The conditioning is cleared when a call returns\<close>

text \<open>
  C1. Whenever \<^verbatim>\<open>forward\<close> or \<^verbatim>\<open>generate\<close> returns (no collaborator raised), every
  decoder layer of the model is unconditioned afterwards, and
  \<^verbatim>\<open>clear_conditioned_layers\<close> was the last call made: none of the visual features of
  the call is left in a layer for a later call to see.
\<close>

theorem call_returned_then_layers_unconditioned:
  "(fst (forward env vx lx am lb w) = Inr out \<longrightarrow>
      list_all (\<lambda>l. conditioning l = Unconditioned) (layers (snd (forward env vx lx am lb w))) \<and>
      last (calls (snd (forward env vx lx am lb w))) = ClearConditionedLayers) \<and>
   (fst (generate env vx lx ml eoc am nb t k p nr lp ns ds es w) = Inr sq \<longrightarrow>
      list_all (\<lambda>l. conditioning l = Unconditioned)
        (layers (snd (generate env vx lx ml eoc am nb t k p nr lp ns ds es w))) \<and>
      last (calls (snd (generate env vx lx ml eoc am nb t k p nr lp ns ds es w)))
        = ClearConditionedLayers)"
proof (intro conjI impI)
  assume "fst (forward env vx lx am lb w) = Inr out"
  then obtain enc ls where "vision_encoder env vx = Inr enc"
    and "lang_encoder env (layers w) (last_hidden_state enc) lx am lb = (Inr out, ls)"
    using forward_returned [of env vx lx am lb w out] by auto
  then have run: "forward env vx lx am lb w =
       (Inr out, w\<lparr>layers := clear_conditioned_layers ls,
                    calls := calls w @ [VisionEncoder vx,
                                        LangEncoder (last_hidden_state enc) lx am lb,
                                        ClearConditionedLayers]\<rparr>)"
    by (rule forward_success)
  show "list_all (\<lambda>l. conditioning l = Unconditioned) (layers (snd (forward env vx lx am lb w)))"
    by (simp add: run cleared_layers_unconditioned)
  show "last (calls (snd (forward env vx lx am lb w))) = ClearConditionedLayers"
    by (simp add: run)
next
  assume "fst (generate env vx lx ml eoc am nb t k p nr lp ns ds es w) = Inr sq"
  then obtain enc r where "vision_encoder env vx = Inr enc"
    and "perceiver_resampler env (last_hidden_state enc) = Inr r"
    and "lang_encoder_generate env (map (condition r) (layers w)) lx
             \<lparr>attention_mask = am, max_length = ml, eos_token_id = eoc,
              num_beams = nb, temperature = t, top_k = k, top_p = p,
              no_repeat_ngram_size = nr, length_penalty = lp,
              num_return_sequences = ns, do_sample = ds, early_stopping = es\<rparr> = Inr sq"
    using generate_returned [of env vx lx ml eoc am nb t k p nr lp ns ds es w sq] by auto
  then have run: "generate env vx lx ml eoc am nb t k p nr lp ns ds es w =
           (Inr sq, w\<lparr>layers := clear_conditioned_layers (map (condition r) (layers w)),
                       calls := calls w @
                         [VisionEncoder vx, PerceiverResampler (last_hidden_state enc)] @
                         map (\<lambda>i. Condition i r) [0..<length (layers w)] @
                         [LangEncoderGenerate lx
                            \<lparr>attention_mask = am, max_length = ml, eos_token_id = eoc,
                             num_beams = nb, temperature = t, top_k = k, top_p = p,
                             no_repeat_ngram_size = nr, length_penalty = lp,
                             num_return_sequences = ns, do_sample = ds,
                             early_stopping = es\<rparr>,
                          ClearConditionedLayers]\<rparr>)"
    by (rule generate_success)
  show "list_all (\<lambda>l. conditioning l = Unconditioned)
          (layers (snd (generate env vx lx ml eoc am nb t k p nr lp ns ds es w)))"
    unfolding run by (simp add: cleared_layers_unconditioned)
  show "last (calls (snd (generate env vx lx ml eoc am nb t k p nr lp ns ds es w)))
        = ClearConditionedLayers"
    unfolding run by simp
qed

theorem call_returned_then_layers_unconditioned_witness:
  "fst (forward demo [3, 4] [1, 2] None None (Flamingo_init [10, 20])) = Inr [6, 8, 1, 2] \<and>
   list_all (\<lambda>l. conditioning l = Unconditioned)
     (layers (snd (forward demo [3, 4] [1, 2] None None (Flamingo_init [10, 20])))) \<and>
   last (calls (snd (forward demo [3, 4] [1, 2] None None (Flamingo_init [10, 20]))))
     = ClearConditionedLayers \<and>
   fst (generate demo [3, 4] [1, 2] 8 9 None 1 1 0 1 0 1 1 False True (Flamingo_init [10, 20]))
     = Inr [1, 2, 6, 6, 9] \<and>
   list_all (\<lambda>l. conditioning l = Unconditioned)
     (layers (snd (generate demo [3, 4] [1, 2] 8 9 None 1 1 0 1 0 1 1 False True
        (Flamingo_init [10, 20])))) \<and>
   last (calls (snd (generate demo [3, 4] [1, 2] 8 9 None 1 1 0 1 0 1 1 False True
     (Flamingo_init [10, 20])))) = ClearConditionedLayers"
proof -
  have f: "fst (forward demo [3, 4] [1, 2] None None (Flamingo_init [10, 20])) = Inr [6, 8, 1, 2]"
    by (simp add: run_demo)
  have g: "fst (generate demo [3, 4] [1, 2] 8 9 None 1 1 0 1 0 1 1 False True
              (Flamingo_init [10, 20])) = Inr [1, 2, 6, 6, 9]"
    by (simp add: run_demo)
  show ?thesis
    using f g
      call_returned_then_layers_unconditioned
        [of demo "[3, 4]" "[1, 2]" None None "Flamingo_init [10, 20]" "[6, 8, 1, 2]"
            8 9 1 1 0 1 0 1 1 False True "[1, 2, 6, 6, 9]"]
    by simp
qed

section \<open>The steps of forward\<close>

text \<open>
  C2. When the vision encoder and the language model return, \<^verbatim>\<open>forward\<close> has made
  exactly three calls, in this order: the vision encoder on \<^verbatim>\<open>vision_x\<close>, once; the
  language model on the encoder's features with \<^verbatim>\<open>lang_x\<close>, \<^verbatim>\<open>attention_mask\<close> and
  \<^verbatim>\<open>labels\<close>; \<^verbatim>\<open>clear_conditioned_layers\<close>. It returns the language model's output
  unchanged, and the layers are the ones the language model left, cleared.
\<close>

theorem forward_steps_in_order:
  assumes "vision_encoder env vx = Inr enc"
    and "lang_encoder env (layers w) (last_hidden_state enc) lx am lb = (Inr out, ls)"
  shows "fst (forward env vx lx am lb w) = Inr out \<and>
         new_calls w (snd (forward env vx lx am lb w)) =
           [VisionEncoder vx, LangEncoder (last_hidden_state enc) lx am lb,
            ClearConditionedLayers] \<and>
         layers (snd (forward env vx lx am lb w)) = clear_conditioned_layers ls"
  by (simp add: forward_success [OF assms])

theorem forward_steps_in_order_witness:
  "vision_encoder demo [3, 4] = Inr \<lparr>last_hidden_state = [6, 8]\<rparr> \<and>
   lang_encoder demo (layers (Flamingo_init [10, 20])) [6, 8] [1, 2] None None =
     (Inr [6, 8, 1, 2], [\<lparr>body = 10, conditioning = Conditioned [6, 8]\<rparr>,
                         \<lparr>body = 20, conditioning = Conditioned [6, 8]\<rparr>]) \<and>
   fst (forward demo [3, 4] [1, 2] None None (Flamingo_init [10, 20])) = Inr [6, 8, 1, 2] \<and>
   new_calls (Flamingo_init [10, 20])
       (snd (forward demo [3, 4] [1, 2] None None (Flamingo_init [10, 20]))) =
     [VisionEncoder [3, 4], LangEncoder [6, 8] [1, 2] None None, ClearConditionedLayers] \<and>
   layers (snd (forward demo [3, 4] [1, 2] None None (Flamingo_init [10, 20]))) =
     [\<lparr>body = 10, conditioning = Unconditioned\<rparr>, \<lparr>body = 20, conditioning = Unconditioned\<rparr>]"
proof -
  have v: "vision_encoder demo [3, 4] = Inr \<lparr>last_hidden_state = [6, 8]\<rparr>"
    by (simp add: demo_def)
  have l: "lang_encoder demo (layers (Flamingo_init [10, 20]))
             (last_hidden_state \<lparr>last_hidden_state = [6, 8]\<rparr>) [1, 2] None None =
     (Inr [6, 8, 1, 2], [\<lparr>body = 10, conditioning = Conditioned [6, 8]\<rparr>,
                         \<lparr>body = 20, conditioning = Conditioned [6, 8]\<rparr>])"
    by (simp add: demo_def Flamingo_init_def init_flamingo_def stored_features_def condition_def)
  show ?thesis
    using v l forward_steps_in_order [OF v l] by (simp add: clear_conditioned_layers_def)
qed

section \<open>The steps of generate\<close>

text \<open>
  C3. When the vision encoder, the resampler and the generation routine return,
  \<^verbatim>\<open>generate\<close> has made exactly these calls, in this order: the vision encoder on
  \<^verbatim>\<open>vision_x\<close>; the Perceiver resampler on the encoder's features; \<^verbatim>\<open>condition\<close> on
  every decoder layer, in layer order, with the resampled features; the language
  model's generation routine; \<^verbatim>\<open>clear_conditioned_layers\<close>. It returns the routine's
  output unchanged and decodes nothing itself.
\<close>

theorem generate_steps_in_order:
  assumes "vision_encoder env vx = Inr enc"
    and "perceiver_resampler env (last_hidden_state enc) = Inr r"
    and "lang_encoder_generate env (map (condition r) (layers w)) lx
           (passed_kwargs ml eoc am nb t k p nr lp ns ds es) = Inr sq"
  shows "fst (generate env vx lx ml eoc am nb t k p nr lp ns ds es w) = Inr sq \<and>
         new_calls w (snd (generate env vx lx ml eoc am nb t k p nr lp ns ds es w)) =
           [VisionEncoder vx, PerceiverResampler (last_hidden_state enc)] @
           map (\<lambda>i. Condition i r) [0..<length (layers w)] @
           [LangEncoderGenerate lx (passed_kwargs ml eoc am nb t k p nr lp ns ds es),
            ClearConditionedLayers] \<and>
         layers (snd (generate env vx lx ml eoc am nb t k p nr lp ns ds es w)) =
           clear_conditioned_layers (map (condition r) (layers w))"
  by (simp add: generate_success [OF assms])

theorem generate_steps_in_order_witness:
  "vision_encoder demo [3, 4] = Inr \<lparr>last_hidden_state = [6, 8]\<rparr> \<and>
   perceiver_resampler demo [6, 8] = Inr [6] \<and>
   lang_encoder_generate demo
       [\<lparr>body = 10, conditioning = Conditioned [6]\<rparr>, \<lparr>body = 20, conditioning = Conditioned [6]\<rparr>]
       [1, 2] (passed_kwargs 8 9 None 1 1 0 1 0 1 1 False True) = Inr [1, 2, 6, 6, 9] \<and>
   fst (generate demo [3, 4] [1, 2] 8 9 None 1 1 0 1 0 1 1 False True (Flamingo_init [10, 20]))
     = Inr [1, 2, 6, 6, 9] \<and>
   new_calls (Flamingo_init [10, 20])
       (snd (generate demo [3, 4] [1, 2] 8 9 None 1 1 0 1 0 1 1 False True
          (Flamingo_init [10, 20]))) =
     [VisionEncoder [3, 4], PerceiverResampler [6, 8], Condition 0 [6], Condition 1 [6],
      LangEncoderGenerate [1, 2] (passed_kwargs 8 9 None 1 1 0 1 0 1 1 False True),
      ClearConditionedLayers] \<and>
   layers (snd (generate demo [3, 4] [1, 2] 8 9 None 1 1 0 1 0 1 1 False True
      (Flamingo_init [10, 20]))) =
     [\<lparr>body = 10, conditioning = Unconditioned\<rparr>, \<lparr>body = 20, conditioning = Unconditioned\<rparr>]"
proof -
  have v: "vision_encoder demo [3, 4] = Inr \<lparr>last_hidden_state = [6, 8]\<rparr>"
    by (simp add: demo_def)
  have r: "perceiver_resampler demo (last_hidden_state \<lparr>last_hidden_state = [6, 8]\<rparr>) = Inr [6]"
    by (simp add: demo_def)
  have g: "lang_encoder_generate demo (map (condition [6]) (layers (Flamingo_init [10, 20])))
             [1, 2] (passed_kwargs 8 9 None 1 1 0 1 0 1 1 False True) = Inr [1, 2, 6, 6, 9]"
    by (simp add: demo_def Flamingo_init_def init_flamingo_def stored_features_def condition_def)
  have u: "[0..<2] = [0, 1]"
    by (simp add: upt_rec)
  show ?thesis
    using v r g generate_steps_in_order [OF v r g]
    by (simp add: Flamingo_init_def init_flamingo_def condition_def clear_conditioned_layers_def u)
qed

section \<open>A raising language-model call\<close>




section \<open>The decoding hyperparameters\<close>

text \<open>
  C5. Whenever \<^verbatim>\<open>generate\<close> calls the generation routine, it calls it on \<^verbatim>\<open>lang_x\<close> with
  each of \<^verbatim>\<open>attention_mask\<close>, \<^verbatim>\<open>max_length\<close>, \<^verbatim>\<open>num_beams\<close>, \<^verbatim>\<open>temperature\<close>,
  \<^verbatim>\<open>top_k\<close>, \<^verbatim>\<open>top_p\<close>, \<^verbatim>\<open>no_repeat_ngram_size\<close>, \<^verbatim>\<open>length_penalty\<close>,
  \<^verbatim>\<open>num_return_sequences\<close>, \<^verbatim>\<open>do_sample\<close> and \<^verbatim>\<open>early_stopping\<close> exactly as received,
  and with \<^verbatim>\<open>eoc_token_id\<close> as \<^verbatim>\<open>eos_token_id\<close>. When the vision encoder and the resampler
  return, it makes this call exactly once, and what the routine returns or raises is
  what \<^verbatim>\<open>generate\<close> returns or raises.
\<close>

theorem generate_passes_hyperparameters:
  "set (generate_calls
          (new_calls w (snd (generate env vx lx ml eoc am nb t k p nr lp ns ds es w))))
     \<subseteq> {(lx, \<lparr>attention_mask = am, max_length = ml, eos_token_id = eoc, num_beams = nb,
               temperature = t, top_k = k, top_p = p, no_repeat_ngram_size = nr,
               length_penalty = lp, num_return_sequences = ns, do_sample = ds,
               early_stopping = es\<rparr>)} \<and>
   (vision_encoder env vx = Inr enc \<and> perceiver_resampler env (last_hidden_state enc) = Inr r
      \<longrightarrow>
    generate_calls (new_calls w (snd (generate env vx lx ml eoc am nb t k p nr lp ns ds es w)))
      = [(lx, \<lparr>attention_mask = am, max_length = ml, eos_token_id = eoc, num_beams = nb,
               temperature = t, top_k = k, top_p = p, no_repeat_ngram_size = nr,
               length_penalty = lp, num_return_sequences = ns, do_sample = ds,
               early_stopping = es\<rparr>)] \<and>
    fst (generate env vx lx ml eoc am nb t k p nr lp ns ds es w)
      = lang_encoder_generate env (map (condition r) (layers w)) lx
          \<lparr>attention_mask = am, max_length = ml, eos_token_id = eoc, num_beams = nb,
           temperature = t, top_k = k, top_p = p, no_repeat_ngram_size = nr,
           length_penalty = lp, num_return_sequences = ns, do_sample = ds,
           early_stopping = es\<rparr>)"
  by (simp add: generate_run split: sum.splits)

theorem generate_passes_hyperparameters_witness:
  "vision_encoder demo [3, 4] = Inr \<lparr>last_hidden_state = [6, 8]\<rparr> \<and>
   perceiver_resampler demo [6, 8] = Inr [6] \<and>
   generate_calls (new_calls (Flamingo_init [10, 20])
       (snd (generate demo [3, 4] [1, 2] 8 9 (Some [1, 1]) 4 (7 / 10) 50 (9 / 10) 3 2 1 True True
          (Flamingo_init [10, 20]))))
     = [([1, 2], \<lparr>attention_mask = Some [1, 1], max_length = 8, eos_token_id = 9, num_beams = 4,
                  temperature = 7 / 10, top_k = 50, top_p = 9 / 10, no_repeat_ngram_size = 3,
                  length_penalty = 2, num_return_sequences = 1, do_sample = True,
                  early_stopping = True\<rparr>)] \<and>
   fst (generate demo [3, 4] [1, 2] 8 9 (Some [1, 1]) 4 (7 / 10) 50 (9 / 10) 3 2 1 True True
          (Flamingo_init [10, 20]))
     = Inr [1, 2, 6, 6, 9]"
proof -
  have v: "vision_encoder demo [3, 4] = Inr \<lparr>last_hidden_state = [6, 8]\<rparr>"
    by (simp add: demo_def)
  have r: "perceiver_resampler demo (last_hidden_state \<lparr>last_hidden_state = [6, 8]\<rparr>) = Inr [6]"
    by (simp add: demo_def)
  have g: "lang_encoder_generate demo (map (condition [6]) (layers (Flamingo_init [10, 20])))
             [1, 2] (passed_kwargs 8 9 (Some [1, 1]) 4 (7 / 10) 50 (9 / 10) 3 2 1 True True)
           = Inr [1, 2, 6, 6, 9]"
    by (simp add: demo_def Flamingo_init_def init_flamingo_def stored_features_def condition_def)
  show ?thesis
    using v r g
      generate_passes_hyperparameters
        [of "Flamingo_init [10, 20]" demo "[3, 4]" "[1, 2]" 8 9 "Some [1, 1]" 4 "7 / 10" 50
            "9 / 10" 3 2 1 True True "\<lparr>last_hidden_state = [6, 8]\<rparr>" "[6]"]
    by simp
qed

section \<open>The length of the generated sequence\<close>




section \<open>forward after generate\<close>

text \<open>
  C7. After \<^verbatim>\<open>generate\<close> has returned on any instance, the layers of the instance are
  those of a pristine model with the same layer bodies; a following \<^verbatim>\<open>forward\<close>
  returns (or raises) the same as \<^verbatim>\<open>forward\<close> with the same inputs on that pristine
  model, and leaves the same layers.
\<close>

theorem forward_after_generate_as_on_pristine:
  assumes "fst (generate env vx lx ml eoc am nb t k p nr lp ns ds es w) = Inr sq"
  shows "layers (snd (generate env vx lx ml eoc am nb t k p nr lp ns ds es w))
           = init_flamingo (map body (layers w)) \<and>
         fst (forward env vx' lx' am' lb'
                (snd (generate env vx lx ml eoc am nb t k p nr lp ns ds es w)))
           = fst (forward env vx' lx' am' lb' (Flamingo_init (map body (layers w)))) \<and>
         layers (snd (forward env vx' lx' am' lb'
                (snd (generate env vx lx ml eoc am nb t k p nr lp ns ds es w))))
           = layers (snd (forward env vx' lx' am' lb' (Flamingo_init (map body (layers w)))))"
proof -
  obtain enc r where "vision_encoder env vx = Inr enc"
    and "perceiver_resampler env (last_hidden_state enc) = Inr r"
    and "lang_encoder_generate env (map (condition r) (layers w)) lx
           (passed_kwargs ml eoc am nb t k p nr lp ns ds es) = Inr sq"
    using generate_returned [OF assms] by auto
  then have "layers (snd (generate env vx lx ml eoc am nb t k p nr lp ns ds es w))
               = clear_conditioned_layers (map (condition r) (layers w))"
    by (simp add: generate_success)
  then have same: "layers (snd (generate env vx lx ml eoc am nb t k p nr lp ns ds es w))
                     = layers (Flamingo_init (map body (layers w)))"
    by (simp add: cleared_is_pristine Flamingo_init_def)
  show ?thesis
    using same forward_layers_only [OF same, of env vx' lx' am' lb']
    by (simp add: Flamingo_init_def)
qed

theorem forward_after_generate_as_on_pristine_witness:
  "fst (generate demo [3, 4] [1, 2] 8 9 None 1 1 0 1 0 1 1 False True
          \<lparr>layers = [\<lparr>body = 10, conditioning = Conditioned [7]\<rparr>,
                     \<lparr>body = 20, conditioning = Unconditioned\<rparr>], calls = []\<rparr>)
     = Inr [1, 2, 6, 6, 9] \<and>
   layers (snd (generate demo [3, 4] [1, 2] 8 9 None 1 1 0 1 0 1 1 False True
          \<lparr>layers = [\<lparr>body = 10, conditioning = Conditioned [7]\<rparr>,
                     \<lparr>body = 20, conditioning = Unconditioned\<rparr>], calls = []\<rparr>))
     = init_flamingo [10, 20] \<and>
   fst (forward demo [5] [1] None None
          (snd (generate demo [3, 4] [1, 2] 8 9 None 1 1 0 1 0 1 1 False True
             \<lparr>layers = [\<lparr>body = 10, conditioning = Conditioned [7]\<rparr>,
                        \<lparr>body = 20, conditioning = Unconditioned\<rparr>], calls = []\<rparr>)))
     = Inr [10, 1] \<and>
   fst (forward demo [5] [1] None None (Flamingo_init [10, 20])) = Inr [10, 1]"
proof -
  have g: "fst (generate demo [3, 4] [1, 2] 8 9 None 1 1 0 1 0 1 1 False True
          \<lparr>layers = [\<lparr>body = 10, conditioning = Conditioned [7]\<rparr>,
                     \<lparr>body = 20, conditioning = Unconditioned\<rparr>], calls = []\<rparr>)
     = Inr [1, 2, 6, 6, 9]"
    by (simp add: run_demo)
  have p: "fst (forward demo [5] [1] None None (Flamingo_init [10, 20])) = Inr [10, 1]"
    by (simp add: run_demo)
  show ?thesis
    using g p forward_after_generate_as_on_pristine [OF g, of "[5]" "[1]" None None]
    by simp
qed

section \<open>Errors of forward\<close>

text \<open>
  C8. \<^verbatim>\<open>forward\<close> validates nothing and raises nothing of its own. When the vision
  encoder raises, \<^verbatim>\<open>forward\<close> raises the same exception after that one call; when the
  language model raises, \<^verbatim>\<open>forward\<close> raises the same exception after these two calls;
  no call is repeated and nothing is caught. Every exception of \<^verbatim>\<open>forward\<close> is the
  exception of one of the two.
\<close>

theorem forward_errors_are_the_collaborators:
  "(vision_encoder env vx = Inl e \<longrightarrow>
      forward env vx lx am lb w = (Inl e, w\<lparr>calls := calls w @ [VisionEncoder vx]\<rparr>)) \<and>
   (vision_encoder env vx = Inr enc \<and>
    lang_encoder env (layers w) (last_hidden_state enc) lx am lb = (Inl e, ls) \<longrightarrow>
      forward env vx lx am lb w =
        (Inl e, w\<lparr>layers := ls,
                   calls := calls w @ [VisionEncoder vx,
                                       LangEncoder (last_hidden_state enc) lx am lb]\<rparr>)) \<and>
   (fst (forward env vx lx am lb w) = Inl e \<longrightarrow>
      vision_encoder env vx = Inl e \<or>
      (\<exists>enc'. vision_encoder env vx = Inr enc' \<and>
         fst (lang_encoder env (layers w) (last_hidden_state enc') lx am lb) = Inl e))"
  by (auto simp: forward_run split: sum.splits prod.splits)

theorem forward_errors_are_the_collaborators_witness:
  "vision_encoder demo [] = Inl ''no image'' \<and>
   forward demo [] [1, 2] None None (Flamingo_init [10, 20]) =
     (Inl ''no image'', \<lparr>layers = init_flamingo [10, 20], calls = [VisionEncoder []]\<rparr>) \<and>
   vision_encoder demo [3, 4] = Inr \<lparr>last_hidden_state = [6, 8]\<rparr> \<and>
   lang_encoder demo (layers (Flamingo_init [10, 20])) [6, 8] [] None None =
     (Inl ''no tokens'', [\<lparr>body = 10, conditioning = Conditioned [6, 8]\<rparr>,
                          \<lparr>body = 20, conditioning = Conditioned [6, 8]\<rparr>]) \<and>
   forward demo [3, 4] [] None None (Flamingo_init [10, 20]) =
     (Inl ''no tokens'',
      \<lparr>layers = [\<lparr>body = 10, conditioning = Conditioned [6, 8]\<rparr>,
                 \<lparr>body = 20, conditioning = Conditioned [6, 8]\<rparr>],
       calls = [VisionEncoder [3, 4], LangEncoder [6, 8] [] None None]\<rparr>)"
proof -
  have v0: "vision_encoder demo [] = Inl ''no image''"
    by (simp add: demo_def)
  have v: "vision_encoder demo [3, 4] = Inr \<lparr>last_hidden_state = [6, 8]\<rparr>"
    by (simp add: demo_def)
  have l: "lang_encoder demo (layers (Flamingo_init [10, 20]))
             (last_hidden_state \<lparr>last_hidden_state = [6, 8]\<rparr>) [] None None =
     (Inl ''no tokens'', [\<lparr>body = 10, conditioning = Conditioned [6, 8]\<rparr>,
                          \<lparr>body = 20, conditioning = Conditioned [6, 8]\<rparr>])"
    by (simp add: demo_def Flamingo_init_def init_flamingo_def stored_features_def condition_def)
  show ?thesis
    using v0 v l
      forward_errors_are_the_collaborators
        [where env = demo and vx = "[]" and e = "''no image''" and lx = "[1, 2]" and am = None
           and lb = None and w = "Flamingo_init [10, 20]", THEN conjunct1]
      forward_errors_are_the_collaborators
        [where env = demo and vx = "[3, 4]" and e = "''no tokens''" and lx = "[]" and am = None
           and lb = None and w = "Flamingo_init [10, 20]"
           and enc = "\<lparr>last_hidden_state = [6, 8]\<rparr>"
           and ls = "[\<lparr>body = 10, conditioning = Conditioned [6, 8]\<rparr>,
                      \<lparr>body = 20, conditioning = Conditioned [6, 8]\<rparr>]",
         THEN conjunct2, THEN conjunct1]
    by (simp add: Flamingo_init_def)
qed

section \<open>Raw and resampled features\<close>

text \<open>
  C9. \<^verbatim>\<open>forward\<close> hands the vision encoder's \<^verbatim>\<open>last_hidden_state\<close> itself to the
  language model; it calls neither the Perceiver resampler nor \<^verbatim>\<open>condition\<close>.
  \<^verbatim>\<open>generate\<close> calls the resampler on the \<^verbatim>\<open>last_hidden_state\<close> and conditions the
  decoder layers on the resampler's output; it does not call the language model's
  forward.
\<close>

theorem forward_hands_raw_generate_resampled:
  assumes "vision_encoder env vx = Inr enc"
  shows "lang_encoder_inputs (new_calls w (snd (forward env vx lx am lb w)))
           = [last_hidden_state enc] \<and>
         resampler_inputs (new_calls w (snd (forward env vx lx am lb w))) = [] \<and>
         condition_calls (new_calls w (snd (forward env vx lx am lb w))) = [] \<and>
         resampler_inputs
           (new_calls w (snd (generate env vx lx ml eoc am nb t k p nr lp ns ds es w)))
           = [last_hidden_state enc] \<and>
         lang_encoder_inputs
           (new_calls w (snd (generate env vx lx ml eoc am nb t k p nr lp ns ds es w))) = [] \<and>
         (perceiver_resampler env (last_hidden_state enc) = Inr r \<longrightarrow>
            condition_calls
              (new_calls w (snd (generate env vx lx ml eoc am nb t k p nr lp ns ds es w)))
              = map (\<lambda>i. (i, r)) [0..<length (layers w)])"
  using assms by (simp add: forward_run generate_run split: sum.splits prod.splits)

theorem forward_hands_raw_generate_resampled_witness:
  "vision_encoder demo [3, 4] = Inr \<lparr>last_hidden_state = [6, 8]\<rparr> \<and>
   perceiver_resampler demo [6, 8] = Inr [6] \<and>
   lang_encoder_inputs (new_calls (Flamingo_init [10, 20])
       (snd (forward demo [3, 4] [1, 2] None None (Flamingo_init [10, 20])))) = [[6, 8]] \<and>
   resampler_inputs (new_calls (Flamingo_init [10, 20])
       (snd (forward demo [3, 4] [1, 2] None None (Flamingo_init [10, 20])))) = [] \<and>
   resampler_inputs (new_calls (Flamingo_init [10, 20])
       (snd (generate demo [3, 4] [1, 2] 8 9 None 1 1 0 1 0 1 1 False True
          (Flamingo_init [10, 20])))) = [[6, 8]] \<and>
   condition_calls (new_calls (Flamingo_init [10, 20])
       (snd (generate demo [3, 4] [1, 2] 8 9 None 1 1 0 1 0 1 1 False True
          (Flamingo_init [10, 20])))) = [(0, [6]), (1, [6])]"
proof -
  have v: "vision_encoder demo [3, 4] = Inr \<lparr>last_hidden_state = [6, 8]\<rparr>"
    by (simp add: demo_def)
  have r: "perceiver_resampler demo [6, 8] = Inr [6]"
    by (simp add: demo_def)
  have u: "[0..<2] = [0, 1]"
    by (simp add: upt_rec)
  show ?thesis
    using v r
      forward_hands_raw_generate_resampled
        [OF v, of "Flamingo_init [10, 20]" "[1, 2]" None None 8 9 1 1 0 1 0 1 1 False True "[6]"]
    by (simp add: Flamingo_init_def init_flamingo_def u)
qed

section \<open>One tensor for every layer\<close>

text \<open>
  C10. In a call of \<^verbatim>\<open>generate\<close> the resampler is called once, and \<^verbatim>\<open>condition\<close> is
  called once on each decoder layer, in layer order, always with the resampler's one
  output. The generation routine is then run on layers that are as many as before, that
  keep their bodies, and that are all conditioned on this tensor.
\<close>

theorem generate_conditions_every_layer_on_one_tensor:
  assumes "vision_encoder env vx = Inr enc"
    and "perceiver_resampler env (last_hidden_state enc) = Inr r"
  shows "resampler_inputs
           (new_calls w (snd (generate env vx lx ml eoc am nb t k p nr lp ns ds es w)))
           = [last_hidden_state enc] \<and>
         condition_calls
           (new_calls w (snd (generate env vx lx ml eoc am nb t k p nr lp ns ds es w)))
           = map (\<lambda>i. (i, r)) [0..<length (layers w)] \<and>
         fst (generate env vx lx ml eoc am nb t k p nr lp ns ds es w)
           = lang_encoder_generate env (map (condition r) (layers w)) lx
               (passed_kwargs ml eoc am nb t k p nr lp ns ds es) \<and>
         length (map (condition r) (layers w)) = length (layers w) \<and>
         list_all (\<lambda>l. conditioning l = Conditioned r) (map (condition r) (layers w)) \<and>
         map body (map (condition r) (layers w)) = map body (layers w)"
  using assms
  by (simp add: generate_run conditioned_layers_hold condition_def split: sum.splits)

theorem generate_conditions_every_layer_on_one_tensor_witness:
  "vision_encoder demo [3, 4] = Inr \<lparr>last_hidden_state = [6, 8]\<rparr> \<and>
   perceiver_resampler demo [6, 8] = Inr [6] \<and>
   resampler_inputs (new_calls (Flamingo_init [10, 20, 30])
       (snd (generate demo [3, 4] [1, 2] 8 9 None 1 1 0 1 0 1 1 False True
          (Flamingo_init [10, 20, 30])))) = [[6, 8]] \<and>
   condition_calls (new_calls (Flamingo_init [10, 20, 30])
       (snd (generate demo [3, 4] [1, 2] 8 9 None 1 1 0 1 0 1 1 False True
          (Flamingo_init [10, 20, 30])))) = [(0, [6]), (1, [6]), (2, [6])] \<and>
   fst (generate demo [3, 4] [1, 2] 8 9 None 1 1 0 1 0 1 1 False True
          (Flamingo_init [10, 20, 30])) = Inr [1, 2, 6, 6, 6, 9] \<and>
   map (condition [6]) (layers (Flamingo_init [10, 20, 30] :: (nat, int list) world)) =
     [\<lparr>body = 10, conditioning = Conditioned [6]\<rparr>,
      \<lparr>body = 20, conditioning = Conditioned [6]\<rparr>,
      \<lparr>body = 30, conditioning = Conditioned [6]\<rparr>]"
proof -
  have v: "vision_encoder demo [3, 4] = Inr \<lparr>last_hidden_state = [6, 8]\<rparr>"
    by (simp add: demo_def)
  have r: "perceiver_resampler demo (last_hidden_state \<lparr>last_hidden_state = [6, 8]\<rparr>) = Inr [6]"
    by (simp add: demo_def)
  have u: "[0..<3] = [0, 1, 2]"
    by (simp add: upt_rec)
  have c: "map (condition [6]) (layers (Flamingo_init [10, 20, 30] :: (nat, int list) world)) =
     [\<lparr>body = 10, conditioning = Conditioned [6]\<rparr>,
      \<lparr>body = 20, conditioning = Conditioned [6]\<rparr>,
      \<lparr>body = 30, conditioning = Conditioned [6]\<rparr>]"
    by (simp add: Flamingo_init_def init_flamingo_def condition_def)
  have g: "lang_encoder_generate demo
             [\<lparr>body = 10, conditioning = Conditioned [6]\<rparr>,
              \<lparr>body = 20, conditioning = Conditioned [6]\<rparr>,
              \<lparr>body = 30, conditioning = Conditioned [6]\<rparr>] [1, 2]
             (passed_kwargs 8 9 None 1 1 0 1 0 1 1 False True) = Inr [1, 2, 6, 6, 6, 9]"
    by (simp add: demo_def stored_features_def)
  show ?thesis
    using v r c g
      generate_conditions_every_layer_on_one_tensor
        [OF v r, of "Flamingo_init [10, 20, 30]" "[1, 2]" 8 9 None 1 1 0 1 0 1 1 False True]
    by (simp add: u Flamingo_init_def init_flamingo_def condition_def)
qed

end
